theory Spec2Isabelle
  imports Main
begin

section \<open>Data model of the portfolio site\<close>

text \<open>
  TypeScript strings are modelled as \<open>string\<close>, holding the UTF-8 bytes of the source
  text; an optional field \<open>f?: T\<close> is a field of type \<open>T option\<close>, \<open>None\<close> being
  \<open>undefined\<close>.
\<close>

subsection \<open>Theme colour resolver (src/utils/textThemeColorTag.ts)\<close>

text \<open>
  The resolver reads \<open>theme.colors.primary\<close>. Only this path of the theme object is
  visible in the sources, so both objects are extensible records: whatever else the theme
  or its colours carry lives in the extension.
\<close>

record Colors =
  primary :: string

record 'c Theme =
  colors :: "'c Colors_scheme"

text \<open>
  The table is indexed with a string, \<open>MAP_COLOR_VARIANT_TO_TEXT[...]\<close>, which is a
  JavaScript property read. Such a read looks first at the object's own entries and then
  follows the prototype chain; only when no object of the chain has the property is the
  result \<open>undefined\<close>. The table is an ordinary object, so its chain is the object itself
  and then \<open>Object.prototype\<close>, whose prototype is \<open>null\<close>.

  A value read from the table is therefore \<open>undefined\<close>, a string (an own entry: a style
  token), or what \<open>Object.prototype\<close> holds under the name read: a built-in function, or for
  \<open>__proto__\<close> the prototype object that its getter returns. \<open>JSInherited n\<close> stands
  for the built-in value under the name \<open>n\<close>.
\<close>

datatype js_value = JSUndefined | JSString string | JSInherited string

text \<open>
  The property names of \<open>Object.prototype\<close>, as ECMAScript defines them (the names
  with underscores are those of its Annex B).
\<close>

definition Object_prototype :: "string list" where
  "Object_prototype =
    [ ''constructor'', ''hasOwnProperty'', ''isPrototypeOf'', ''propertyIsEnumerable'',
      ''toLocaleString'', ''toString'', ''valueOf'', ''__proto__'',
      ''__defineGetter__'', ''__defineSetter__'', ''__lookupGetter__'', ''__lookupSetter__'' ]"

text \<open>
  The property read \<open>obj[k]\<close> on an ordinary object whose own entries are \<open>obj\<close>.
\<close>

definition js_get :: "(string \<rightharpoonup> string) \<Rightarrow> string \<Rightarrow> js_value" where
  "js_get obj k =
    (case obj k of
       Some v \<Rightarrow> JSString v
     | None \<Rightarrow> if k \<in> set Object_prototype then JSInherited k else JSUndefined)"

text \<open>
  \<open>export default function textThemeColorTag() { return MAP_COLOR_VARIANT_TO_TEXT[theme.colors.primary] }\<close>

  The function has no parameter: its two inputs are the imported bindings, the table and the
  theme, which are the arguments here; \<open>table\<close> holds the own entries of the table object.
  The body is a single \<open>return\<close> of the property read: it assigns nothing, calls nothing
  and has no fallback value.
\<close>

definition textThemeColorTag :: "(string \<rightharpoonup> string) \<Rightarrow> ('c, 'm) Theme_scheme \<Rightarrow> js_value" where
  "textThemeColorTag table thm = js_get table (primary (colors thm))"

subsection \<open>Projects (src/data/projects.ts)\<close>

record Project =
  title :: string
  techs :: "string list"
  link :: string
  isComingSoon :: "bool option"

definition projects :: "Project list" where
  "projects =
    [ \<lparr> title = ''Massflip'',
        techs = [''Go'', ''Vue.js'', ''AWS'', ''MongoDB''],
        link = ''https://github.com/gabehf/massflip'',
        isComingSoon = None \<rparr>,
      \<lparr> title = ''CostIn.Coffee'',
        techs = [''HTML/CSS/JS'', ''jQuery''],
        link = ''https://costin.coffee'',
        isComingSoon = None \<rparr>,
      \<lparr> title = ''Budget Buddy'',
        techs = [''React'', ''Go'', ''MongoDB''],
        link = ''https://github.com/gabehf/budgetbuddy'',
        isComingSoon = None \<rparr> ]"

subsection \<open>Presentation (two versions of the same module)\<close>

record Social =
  label :: string
  link :: string

record Presentation =
  mail :: string
  title :: string
  description :: string
  socials :: "Social list"
  profile :: "string option"

text \<open>
  The headline holds two characters outside ASCII, U+2019 and U+1F44B, given here by their
  UTF-8 bytes. In the description a backslash at the end of a line continues the string
  literal: the backslash and the line break are dropped and the indentation of the next
  line stays. The \<open>profile\<close> line is commented out in both versions.
\<close>

definition presentation_000 :: Presentation where
  "presentation_000 =
    \<lparr> mail = ''gabe@mnrva.dev'',
      title = ''Hey, I'' @ [CHR 0xE2, CHR 0x80, CHR 0x99] @ ''m Gabe '' @
              [CHR 0xF0, CHR 0x9F, CHR 0x91, CHR 0x8B],
      description =
        ''I'm a *full stack developer* with about one year of professional experience.'' @
        ''     You will often find me working with *Go, NodeJS and Ruby*. I love'' @
        ''     to spend my time learning everything I can about emerging technologies in *cloud computing* and'' @
        ''     *API development*. When I'm not working, I play guitar and am an avid gamer.'',
      socials = [ \<lparr> label = ''View my GitHub'', link = ''https://github.com/gabehf'' \<rparr> ],
      profile = None \<rparr>"

definition presentation_001 :: Presentation where
  "presentation_001 =
    \<lparr> mail = ''gabe@mnrva.dev'',
      title = ''Hey, I'' @ [CHR 0xE2, CHR 0x80, CHR 0x99] @ ''m Gabe '' @
              [CHR 0xF0, CHR 0x9F, CHR 0x91, CHR 0x8B],
      description =
        ''I'm a recent *CS graduate* with professional *full stack development* experience.'' @
        ''     You will often find me working with *Go, NodeJS and Python*. I love'' @
        ''     to spend my time learning everything I can about emerging technologies in *cloud computing* and'' @
        ''     *API development*. When I'm not working, I play guitar and am an avid gamer.'',
      socials = [ \<lparr> label = ''View my GitHub'', link = ''https://github.com/gabehf'' \<rparr> ],
      profile = None \<rparr>"

subsection \<open>Blog documents (metadata headers)\<close>

text \<open>
  Each blog document opens with a metadata header between two \<open>---\<close> lines. The header is
  what is modelled; the narrative body below it is prose and plays no part here.
\<close>

record Date =
  year :: nat
  month :: nat
  day :: nat

record BlogDocument =
  title :: string
  publishedAt :: Date
  description :: string
  slug :: string
  isPublish :: bool

definition creating_serverless_lambda_go :: BlogDocument where
  "creating_serverless_lambda_go =
    \<lparr> title = ''Creating Serverless Applications with AWS Lambda and Go'',
      publishedAt = \<lparr> year = 2023, month = 11, day = 23 \<rparr>,
      description = ''Learn how to deploy your first AWS Lambda serverless function using Go with this step-by-step guide.'',
      slug = ''creating-serverless-lambda-go'',
      isPublish = True \<rparr>"

definition stateless_containerized_trivia_api_go :: BlogDocument where
  "stateless_containerized_trivia_api_go =
    \<lparr> title = ''Building a Stateless, Containerized Trivia API in Golang'',
      publishedAt = \<lparr> year = 2023, month = 12, day = 9 \<rparr>,
      description = ''Follow along as I build a stateless trivia API in Go and containerize it with Docker.'',
      slug = ''stateless-containerized-trivia-api-go'',
      isPublish = True \<rparr>"

definition blog_documents :: "BlogDocument list" where
  "blog_documents = [creating_serverless_lambda_go, stateless_containerized_trivia_api_go]"

text \<open>
  Modelled from the spec: the presentation layer that loads the blog documents and filters
  them by the publish flag is not among the sources. The spec describes the operation as
  filtering the loaded documents by \<open>isPublish = true\<close>, keeping exactly the documents
  whose flag has that value.
\<close>

definition filterByIsPublish :: "bool \<Rightarrow> BlogDocument list \<Rightarrow> BlogDocument list" where
  "filterByIsPublish flag docs = filter (\<lambda>d. isPublish d = flag) docs"

subsection \<open>URL syntax\<close>

text \<open>
  The data holds links as plain strings and no code here checks them. To state that a
  link is a syntactically valid URL, the check below follows the generic syntax of RFC 3986
  for an absolute URL with an authority: a scheme (a letter, then letters, digits,
  \<open>+\<close>, \<open>-\<close> or \<open>.\<close>), the separator \<open>://\<close>, a non-empty authority that ends at
  the first \<open>/\<close>, \<open>?\<close> or \<open>#\<close>, and after the scheme only characters that RFC 3986
  allows in a URI.
\<close>

definition is_alpha :: "char \<Rightarrow> bool" where
  "is_alpha c = (c \<in> set ''abcdefghijklmnopqrstuvwxyzABCDEFGHIJKLMNOPQRSTUVWXYZ'')"

definition is_digit :: "char \<Rightarrow> bool" where
  "is_digit c = (c \<in> set ''0123456789'')"

definition is_scheme_char :: "char \<Rightarrow> bool" where
  "is_scheme_char c = (is_alpha c \<or> is_digit c \<or> c \<in> set ''+-.'')"

definition is_uri_char :: "char \<Rightarrow> bool" where
  "is_uri_char c =
    (is_alpha c \<or> is_digit c \<or> c \<in> set ''-._~:/?#[]@!$&()*+,;=%'' \<or> c = CHR 0x27)"

definition valid_url :: "string \<Rightarrow> bool" where
  "valid_url s =
    (let scheme = takeWhile (\<lambda>c. c \<noteq> CHR '':'') s;
         rest = dropWhile (\<lambda>c. c \<noteq> CHR '':'') s;
         authority = takeWhile (\<lambda>c. c \<notin> set ''/?#'') (drop 3 rest)
     in (case scheme of
           [] \<Rightarrow> False
         | c # cs \<Rightarrow> is_alpha c \<and> list_all is_scheme_char cs)
        \<and> take 3 rest = ''://''
        \<and> authority \<noteq> []
        \<and> list_all is_uri_char rest)"

section \<open>The theme colour resolver\<close>

lemma js_get_own: "obj k = Some v \<Longrightarrow> js_get obj k = JSString v"
  by (simp add: js_get_def)

lemma js_get_absent: "obj k = None \<Longrightarrow> k \<notin> set Object_prototype \<Longrightarrow> js_get obj k = JSUndefined"
  by (simp add: js_get_def)

text \<open>
  C2, as amended: when the configured colour identifier is not a key of the table and is
  not the name of a property that the table inherits from \<open>Object.prototype\<close>, the lookup
  of the resolver gives \<open>undefined\<close>: no fallback, no default token, and no error.
\<close>

theorem textThemeColorTag_unmapped_undefined:
  assumes "primary (colors thm) \<notin> dom table"
    and "primary (colors thm) \<notin> set Object_prototype"
  shows "textThemeColorTag table thm = JSUndefined"
proof -
  from assms(1) have "table (primary (colors thm)) = None"
    by (simp add: domIff)
  from this assms(2) show ?thesis
    unfolding textThemeColorTag_def by (rule js_get_absent)
qed

theorem textThemeColorTag_unmapped_undefined_witness:
  "''primary-teal'' \<notin> dom [''primary-blue'' \<mapsto> ''text-blue-500'']
   \<and> ''primary-teal'' \<notin> set Object_prototype
   \<and> textThemeColorTag [''primary-blue'' \<mapsto> ''text-blue-500'']
         \<lparr> colors = \<lparr> primary = ''primary-teal'' \<rparr> \<rparr> = JSUndefined"
proof -
  have h1: "primary (colors \<lparr> colors = \<lparr> primary = ''primary-teal'' \<rparr> \<rparr>)
            \<notin> dom [''primary-blue'' \<mapsto> ''text-blue-500'']"
    by simp
  have h2: "primary (colors \<lparr> colors = \<lparr> primary = ''primary-teal'' \<rparr> \<rparr>)
            \<notin> set Object_prototype"
    by (simp add: Object_prototype_def)
  from textThemeColorTag_unmapped_undefined [OF h1 h2] h1 h2 show ?thesis
    by simp
qed

text \<open>
  The claim as first stated, for every identifier that is not a key of the table, fails:
  with "constructor" as the configured identifier, which is no key of the table, the read
  reaches \<open>Object.prototype\<close> and the resolver returns the inherited value, not
  \<open>undefined\<close>.
\<close>

theorem textThemeColorTag_unmapped_counterexample:
  "''constructor'' \<notin> dom [''primary-blue'' \<mapsto> ''text-blue-500'']
   \<and> textThemeColorTag [''primary-blue'' \<mapsto> ''text-blue-500'']
         \<lparr> colors = \<lparr> primary = ''constructor'' \<rparr> \<rparr> = JSInherited ''constructor''
   \<and> textThemeColorTag [''primary-blue'' \<mapsto> ''text-blue-500'']
         \<lparr> colors = \<lparr> primary = ''constructor'' \<rparr> \<rparr> \<noteq> JSUndefined"
  by (simp add: textThemeColorTag_def js_get_def Object_prototype_def)

text \<open>
  C4: the resolver consumes one colour identifier, the primary colour of the theme
  configuration, and for an identifier of the table's key set it returns exactly one
  style token, the table's entry for that identifier; nothing else of the theme object
  enters the result. (The function is a single property read: it reaches no network,
  file or environment.)
\<close>

theorem textThemeColorTag_one_token:
  assumes "k \<in> dom table"
    and "primary (colors thm1) = k"
    and "primary (colors thm2) = k"
  shows "(\<exists>!t. textThemeColorTag table thm1 = JSString t)
         \<and> Some (textThemeColorTag table thm1) = map_option JSString (table k)
         \<and> textThemeColorTag table thm2 = textThemeColorTag table thm1"
proof -
  from assms(1) obtain t where t: "table k = Some t"
    by blast
  then have "js_get table k = JSString t"
    by (rule js_get_own)
  with t assms(2,3) show ?thesis
    by (simp add: textThemeColorTag_def)
qed

theorem textThemeColorTag_one_token_witness:
  "''orange'' \<in> dom [''orange'' \<mapsto> ''text-orange-500'', ''violet'' \<mapsto> ''text-violet-500'']
   \<and> (\<exists>!t. textThemeColorTag [''orange'' \<mapsto> ''text-orange-500'', ''violet'' \<mapsto> ''text-violet-500'']
              \<lparr> colors = \<lparr> primary = ''orange'' \<rparr> \<rparr> = JSString t)
   \<and> textThemeColorTag [''orange'' \<mapsto> ''text-orange-500'', ''violet'' \<mapsto> ''text-violet-500'']
         \<lparr> colors = \<lparr> primary = ''orange'' \<rparr> \<rparr> = JSString ''text-orange-500''
   \<and> textThemeColorTag [''orange'' \<mapsto> ''text-orange-500'', ''violet'' \<mapsto> ''text-violet-500'']
         \<lparr> colors = \<lparr> primary = ''orange'', \<dots> = ''blur'' \<rparr>, \<dots> = False \<rparr>
       = JSString ''text-orange-500''"
proof -
  let ?table = "[''orange'' \<mapsto> ''text-orange-500'', ''violet'' \<mapsto> ''text-violet-500'']"
  have h1: "''orange'' \<in> dom ?table"
    by simp
  have h2: "primary (colors \<lparr> colors = \<lparr> primary = ''orange'' \<rparr> \<rparr>) = ''orange''"
    by simp
  have h3: "primary (colors \<lparr> colors = \<lparr> primary = ''orange'', \<dots> = ''blur'' \<rparr>, \<dots> = False \<rparr>)
            = ''orange''"
    by simp
  have e: "?table ''orange'' = Some ''text-orange-500''"
    by simp
  from textThemeColorTag_one_token [OF h1 h2 h3] h1 e show ?thesis
    by simp
qed

text \<open>
  C5: given that the table maps the identifier "primary-blue" to the token
  "text-blue-500", the resolver yields exactly "text-blue-500" when the configured
  primary colour of the site is "primary-blue".
\<close>

theorem textThemeColorTag_primary_blue:
  "table ''primary-blue'' = Some ''text-blue-500''
   \<Longrightarrow> primary (colors thm) = ''primary-blue''
   \<Longrightarrow> textThemeColorTag table thm = JSString ''text-blue-500''"
  by (simp add: textThemeColorTag_def js_get_own)

theorem textThemeColorTag_primary_blue_witness:
  "[''primary-blue'' \<mapsto> ''text-blue-500''] ''primary-blue'' = Some ''text-blue-500''
   \<and> primary (colors \<lparr> colors = \<lparr> primary = ''primary-blue'' \<rparr> \<rparr>) = ''primary-blue''
   \<and> textThemeColorTag [''primary-blue'' \<mapsto> ''text-blue-500'']
         \<lparr> colors = \<lparr> primary = ''primary-blue'' \<rparr> \<rparr> = JSString ''text-blue-500''"
proof -
  have h1: "[''primary-blue'' \<mapsto> ''text-blue-500''] ''primary-blue'' = Some ''text-blue-500''"
    by simp
  have h2: "primary (colors \<lparr> colors = \<lparr> primary = ''primary-blue'' \<rparr> \<rparr>) = ''primary-blue''"
    by simp
  from textThemeColorTag_primary_blue
         [of "[''primary-blue'' \<mapsto> ''text-blue-500'']"
             "\<lparr> colors = \<lparr> primary = ''primary-blue'' \<rparr> \<rparr>", OF h1 h2] h1 h2
  show ?thesis
    by (intro conjI)
qed

section \<open>Blog documents\<close>

lemma blog_documents_differ: "creating_serverless_lambda_go \<noteq> stateless_containerized_trivia_api_go"
  by (simp add: creating_serverless_lambda_go_def stateless_containerized_trivia_api_go_def)

lemma filterByIsPublish_set: "set (filterByIsPublish flag docs) = {d \<in> set docs. isPublish d = flag}"
  by (simp add: filterByIsPublish_def)

text \<open>
  C6: the slugs of the blog documents of the corpus are pairwise distinct.
\<close>

theorem blog_documents_slugs_distinct: "distinct (map slug blog_documents)"
  by (simp add: blog_documents_def creating_serverless_lambda_go_def
      stateless_containerized_trivia_api_go_def)

text \<open>
  C7: loading the two blog documents, in either order, and filtering by
  \<open>isPublish = true\<close> returns exactly the documents whose flag is true, which here are
  both documents, each once; the result is described as a set, since no order is promised.
\<close>

theorem filterByIsPublish_blog_documents:
  assumes "distinct docs"
    and "set docs = set blog_documents"
  shows "set (filterByIsPublish True docs) = {d \<in> set docs. isPublish d}
         \<and> set (filterByIsPublish True docs)
             = {creating_serverless_lambda_go, stateless_containerized_trivia_api_go}
         \<and> distinct (filterByIsPublish True docs)"
proof (intro conjI)
  show "set (filterByIsPublish True docs) = {d \<in> set docs. isPublish d}"
    by (simp add: filterByIsPublish_set)
  have "isPublish creating_serverless_lambda_go"
    and "isPublish stateless_containerized_trivia_api_go"
    by (simp_all add: creating_serverless_lambda_go_def stateless_containerized_trivia_api_go_def)
  then show "set (filterByIsPublish True docs)
      = {creating_serverless_lambda_go, stateless_containerized_trivia_api_go}"
    using assms(2) by (auto simp add: filterByIsPublish_set blog_documents_def)
  show "distinct (filterByIsPublish True docs)"
    using assms(1) by (simp add: filterByIsPublish_def)
qed

theorem filterByIsPublish_blog_documents_witness:
  "distinct (rev blog_documents)
   \<and> set (filterByIsPublish True (rev blog_documents))
       = {creating_serverless_lambda_go, stateless_containerized_trivia_api_go}
   \<and> length (filterByIsPublish True (rev blog_documents)) = 2"
proof -
  have h1: "distinct (rev blog_documents)"
    using blog_documents_differ by (simp add: blog_documents_def)
  have h2: "set (rev blog_documents) = set blog_documents"
    by simp
  have len: "length (filterByIsPublish True (rev blog_documents)) = 2"
    by (simp add: filterByIsPublish_def blog_documents_def creating_serverless_lambda_go_def
        stateless_containerized_trivia_api_go_def)
  from filterByIsPublish_blog_documents [OF h1 h2]
  have s: "set (filterByIsPublish True (rev blog_documents))
           = {creating_serverless_lambda_go, stateless_containerized_trivia_api_go}"
    by (elim conjE)
  from h1 s len show ?thesis
    by (intro conjI)
qed

section \<open>Projects and presentation\<close>

lemma valid_url_github_gabehf: "valid_url ''https://github.com/gabehf''"
  by (simp add: valid_url_def is_alpha_def is_digit_def is_scheme_char_def is_uri_char_def)

text \<open>
  C8: for every project record of the projects list, the list of technology tags is not
  empty and none of its entries is the empty text, and the title and the link are not
  empty.
\<close>

theorem projects_fields_nonempty:
  "\<forall>p \<in> set projects.
     techs p \<noteq> [] \<and> (\<forall>t \<in> set (techs p). t \<noteq> [])
     \<and> Project.title p \<noteq> [] \<and> Project.link p \<noteq> []"
  by (simp add: projects_def)

theorem projects_fields_nonempty_witness:
  "projects ! 1 \<in> set projects
   \<and> techs (projects ! 1) = [''HTML/CSS/JS'', ''jQuery'']
   \<and> ''jQuery'' \<noteq> []
   \<and> Project.title (projects ! 1) \<noteq> [] \<and> Project.link (projects ! 1) \<noteq> []"
proof -
  have h: "projects ! 1 \<in> set projects"
    by (simp add: projects_def)
  have t: "techs (projects ! 1) = [''HTML/CSS/JS'', ''jQuery'']"
    by (simp add: projects_def)
  from projects_fields_nonempty h
  have "techs (projects ! 1) \<noteq> [] \<and> (\<forall>t \<in> set (techs (projects ! 1)). t \<noteq> [])
        \<and> Project.title (projects ! 1) \<noteq> [] \<and> Project.link (projects ! 1) \<noteq> []"
    by (rule bspec)
  with h t show ?thesis
    by simp
qed

text \<open>
  C9: in both versions of the presentation record, every social link record has a label
  that is not empty and a link that is a syntactically valid URL, and the contact address
  (mail) and the headline (title) of the record are not empty.
\<close>

theorem presentation_socials_valid:
  "\<forall>p \<in> {presentation_000, presentation_001}.
     (\<forall>s \<in> set (socials p). label s \<noteq> [] \<and> valid_url (Social.link s))
     \<and> mail p \<noteq> [] \<and> Presentation.title p \<noteq> []"
  using valid_url_github_gabehf by (simp add: presentation_000_def presentation_001_def)

theorem presentation_socials_valid_witness:
  "presentation_001 \<in> {presentation_000, presentation_001}
   \<and> socials presentation_001 ! 0 \<in> set (socials presentation_001)
   \<and> label (socials presentation_001 ! 0) \<noteq> []
   \<and> valid_url (Social.link (socials presentation_001 ! 0))
   \<and> mail presentation_001 \<noteq> [] \<and> Presentation.title presentation_001 \<noteq> []"
proof -
  have h1: "presentation_001 \<in> {presentation_000, presentation_001}"
    by simp
  have h2: "socials presentation_001 ! 0 \<in> set (socials presentation_001)"
    by (simp add: presentation_001_def)
  from presentation_socials_valid h1
  have a: "(\<forall>s \<in> set (socials presentation_001). label s \<noteq> [] \<and> valid_url (Social.link s))
           \<and> mail presentation_001 \<noteq> [] \<and> Presentation.title presentation_001 \<noteq> []"
    by (rule bspec)
  then have "\<forall>s \<in> set (socials presentation_001). label s \<noteq> [] \<and> valid_url (Social.link s)"
    by (rule conjunct1)
  from this h2
  have "label (socials presentation_001 ! 0) \<noteq> [] \<and> valid_url (Social.link (socials presentation_001 ! 0))"
    by (rule bspec)
  with a h1 h2 show ?thesis
    by blast
qed

text \<open>
  C10: the two versions of the presentation record agree on mail, title and socials, both
  leave the optional profile image undefined, and they differ in the description text and
  in nothing else; no project record of the projects list sets the optional
  \<open>isComingSoon\<close> flag. Consumers therefore see these optional fields as absent.
\<close>

theorem presentation_versions_agree:
  "mail presentation_000 = mail presentation_001
   \<and> Presentation.title presentation_000 = Presentation.title presentation_001
   \<and> socials presentation_000 = socials presentation_001
   \<and> profile presentation_000 = None \<and> profile presentation_001 = None
   \<and> Presentation.description presentation_000 \<noteq> Presentation.description presentation_001
   \<and> presentation_000 \<lparr> Presentation.description := Presentation.description presentation_001 \<rparr>
       = presentation_001
   \<and> (\<forall>p \<in> set projects. isComingSoon p = None)"
  by (simp add: presentation_000_def presentation_001_def projects_def)

theorem presentation_versions_agree_witness:
  "projects ! 2 \<in> set projects \<and> isComingSoon (projects ! 2) = None
   \<and> profile presentation_000 = None \<and> profile presentation_001 = None"
proof -
  have h: "projects ! 2 \<in> set projects"
    by (simp add: projects_def)
  from presentation_versions_agree
  have a: "\<forall>p \<in> set projects. isComingSoon p = None"
    and b: "profile presentation_000 = None" and c: "profile presentation_001 = None"
    by blast+
  from a h have "isComingSoon (projects ! 2) = None"
    by (rule bspec)
  with h b c show ?thesis
    by blast
qed

end
